theory Spec2Isabelle
  imports Main
begin

section \<open>Strings\<close>

text \<open>
  A Python \<open>str\<close> is modelled as a \<open>string\<close>. \<open>str.lower\<close> and \<open>str.upper\<close> are modelled
  on ASCII text: a letter \<open>A\<close>..\<open>Z\<close> (codes 65..90) and its lower case \<open>a\<close>..\<open>z\<close>
  (codes 97..122) are 32 apart, every other character is left as it is.
\<close>

definition char_lower :: "char \<Rightarrow> char" where
  "char_lower c =
     (let n = (of_char c :: nat) in if 65 \<le> n \<and> n \<le> 90 then char_of (n + 32) else c)"

definition char_upper :: "char \<Rightarrow> char" where
  "char_upper c =
     (let n = (of_char c :: nat) in if 97 \<le> n \<and> n \<le> 122 then char_of (n - 32) else c)"

definition lower :: "string \<Rightarrow> string" where
  "lower s = map char_lower s"

definition upper :: "string \<Rightarrow> string" where
  "upper s = map char_upper s"

section \<open>Structure names (\<open>cifti.py\<close>, lines 17 to 32)\<close>

definition structures :: "string list" where
  "structures =
     [''diencephalon_ventral'', ''brain_stem'', ''thalamus'', ''cerebellum'',
      ''hippocampus'', ''pallidum'', ''accumbens'', ''putamen'', ''amygdala'',
      ''caudate'', ''cortex'']"

definition freesurfer_structures :: "string list" where
  "freesurfer_structures =
     [''BRAIN_STEM'', ''DIENCEPHALON_VENTRAL_LEFT'',
      ''DIENCEPHALON_VENTRAL_RIGHT'', ''THALAMUS_LEFT'',
      ''THALAMUS_RIGHT'', ''CEREBELLUM_LEFT'',
      ''CEREBELLUM_RIGHT'', ''HIPPOCAMPUS_LEFT'',
      ''HIPPOCAMPUS_RIGHT'', ''PALLIDUM_LEFT'', ''PALLIDUM_RIGHT'',
      ''ACCUMBENS_LEFT'', ''ACCUMBENS_RIGHT'', ''PUTAMEN_LEFT'',
      ''PUTAMEN_RIGHT'', ''AMYGDALA_LEFT'', ''AMYGDALA_RIGHT'',
      ''CAUDATE_LEFT'', ''CAUDATE_RIGHT'', ''CORTEX_LEFT'',
      ''CORTEX_RIGHT'']"

section \<open>Errors\<close>

text \<open>
  Every exception the module can raise is a value: a failed \<open>assert\<close>, a file that is not
  there when the table reader opens it, and whatever the table reader itself raises on
  the contents of a file (with its message).
\<close>

datatype error = AssertionError | FileNotFoundError string | ParserError string

section \<open>\<open>make_fs_key\<close> (\<open>cifti.py\<close>, lines 41 to 68)\<close>

text \<open>
  \<open>structure\<close> is a string, \<open>hemisphere\<close> a string or \<open>None\<close>. The four \<open>assert\<close>
  statements are the branches that return \<open>Inl AssertionError\<close>, in the order of the
  source (assertions are on, as they are unless the interpreter is started with \<open>-O\<close>);
  the local variable \<open>hemisphere\<close> is rebound to its lower case before the second one.
\<close>

definition make_fs_key :: "string \<Rightarrow> string option \<Rightarrow> error + string" where
  "make_fs_key structure hemisphere =
     (if lower structure \<notin> set structures then Inl AssertionError
      else
        let hemisphere = (case hemisphere of None \<Rightarrow> None | Some h \<Rightarrow> Some (lower h)) in
        if hemisphere \<notin> set [Some ''left'', Some ''right'', None] then Inl AssertionError
        else
          let s = upper structure in
          (case hemisphere of
             Some h \<Rightarrow>
               if \<not> s \<noteq> ''BRAIN_STEM'' then Inl AssertionError
               else Inr (s @ ''_'' @ upper h)
           | None \<Rightarrow>
               if \<not> s = ''BRAIN_STEM'' then Inl AssertionError
               else Inr s))"

section \<open>The world of \<open>export_cifti_mapping\<close>\<close>

text \<open>
  \<open>export_cifti_mapping\<close> acts on the file system through two collaborators only: the shell
  that \<open>os.system\<close> hands a command line to, and the table reader that opens a file. The
  world is the file system (a path has a content or is absent) together with the list of
  command lines handed to \<open>os.system\<close> so far, oldest first.
\<close>

record world =
  files :: "string \<rightharpoonup> string"
  commands :: "string list"

text \<open>
  The shell with the external tool behind it is a parameter: any function from the
  command line and the file system to an exit status and the file system it leaves.
  \<open>os.system\<close> runs the command and returns the exit status. A command line is taken to
  be one \<open>os.system\<close> accepts (a path holds no NUL character).
\<close>

type_synonym shell = "string \<Rightarrow> (string \<rightharpoonup> string) \<Rightarrow> int \<times> (string \<rightharpoonup> string)"

definition system :: "shell \<Rightarrow> string \<Rightarrow> world \<Rightarrow> int \<times> world" where
  "system sh cmd w =
     (let (status, fs) = sh cmd (files w)
      in (status, \<lparr>files = fs, commands = commands w @ [cmd]\<rparr>))"

text \<open>\<open>os.path.join\<close> of two components, as \<open>posixpath\<close> defines it.\<close>

definition join :: "string \<Rightarrow> string \<Rightarrow> string" where
  "join a b =
     (if b \<noteq> [] \<and> hd b = CHR ''/'' then b
      else if a = [] \<or> last a = CHR ''/'' then a @ b
      else a @ ''/'' @ b)"

text \<open>\<open>"'{}'".format(s)\<close>: the string between two single quotes (character 39).\<close>

definition quoted :: "string \<Rightarrow> string" where
  "quoted s = [CHR 0x27] @ s @ [CHR 0x27]"

text \<open>
  A table as the table reader returns it: the name of the index axis, the index (one key
  per row), the names of the data columns, and the data cells of each row. A cell holds
  the text of its field; the conversion of a column to a numeric type is not modelled.
\<close>

record table =
  index_name :: "string option"
  index :: "string list"
  columns :: "string list"
  cells :: "string list list"

definition rename_axis :: "string \<Rightarrow> table \<Rightarrow> table" where
  "rename_axis name t = t\<lparr>index_name := Some name\<rparr>"

text \<open>
  \<open>pd.read_table(path, header=header, index_col=index_col, sep=sep, names=names)\<close>. The
  library's parser is a parameter \<open>parse\<close>: from the four keyword arguments and the
  content of the file to a table, or to the message of the error it raises. \<open>header\<close> is
  \<open>None\<close> or a row number, \<open>index_col\<close> a column number, \<open>sep\<close> a separator of one
  character. Opening a path that has no file raises \<open>FileNotFoundError\<close>.
\<close>

type_synonym parser =
  "nat option \<Rightarrow> nat \<Rightarrow> char \<Rightarrow> string list \<Rightarrow> string \<Rightarrow> string + table"

definition read_table ::
  "parser \<Rightarrow> world \<Rightarrow> string \<Rightarrow> nat option \<Rightarrow> nat \<Rightarrow> char \<Rightarrow> string list
     \<Rightarrow> error + table" where
  "read_table parse w path header index_col sep names =
     (case files w path of
        None \<Rightarrow> Inl (FileNotFoundError path)
      | Some content \<Rightarrow>
          (case parse header index_col sep names content of
             Inl msg \<Rightarrow> Inl (ParserError msg)
           | Inr t \<Rightarrow> Inr t))"

section \<open>\<open>export_cifti_mapping\<close> (\<open>cifti.py\<close>, lines 71 to 129)\<close>

definition basecmd :: "string \<Rightarrow> string" where
  "basecmd img = ''wb_command -cifti-export-dense-mapping '' @ quoted img @ '' COLUMN ''"

text \<open>
  \<open>parcel_labels_lr\<close> (imported from the configuration module, which is not among the
  source files) and the directory \<open>tempfile.gettempdir()\<close> returns are parameters. The value \<open>os.system\<close> returns is dropped
  three times, as the three expression statements of the source drop it. The three
  tables are read in the order of the source, after the third command, and the first
  read that raises ends the call with its error; each read passes \<open>header=None\<close>,
  \<open>index_col=0\<close> and \<open>sep=' '\<close>, as the source does. The function returns the result
  together with the world it leaves. The argument \<open>image\<close> of the source is \<open>img\<close> here
  (\<open>image\<close> is a constant of HOL), a path or \<open>None\<close>.
\<close>

definition export_cifti_mapping ::
  "string \<Rightarrow> string \<Rightarrow> shell \<Rightarrow> parser \<Rightarrow> string option \<Rightarrow> world
     \<Rightarrow> (error + (string \<rightharpoonup> table)) \<times> world" where
  "export_cifti_mapping parcel_labels_lr tempdir sh parse img w0 =
     (let volume = join tempdir ''volume.txt'';
          left = join tempdir ''left.txt'';
          right = join tempdir ''right.txt'';
          img = (case img of None \<Rightarrow> parcel_labels_lr | Some p \<Rightarrow> p);
          w1 = snd (system sh (basecmd img @ '' -volume-all '' @ quoted volume @ '' -structure '') w0);
          w2 = snd (system sh (basecmd img @ ''-surface CORTEX_LEFT '' @ quoted left) w1);
          w3 = snd (system sh (basecmd img @ ''-surface CORTEX_RIGHT '' @ quoted right) w2)
      in
        (case read_table parse w3 volume None 0 CHR '' ''
                [''structure'', ''mni_i'', ''mni_j'', ''mni_k''] of
           Inl e \<Rightarrow> Inl e
         | Inr subcortex \<Rightarrow>
             (case read_table parse w3 left None 0 CHR '' '' [''vertex''] of
                Inl e \<Rightarrow> Inl e
              | Inr cortex_left \<Rightarrow>
                  (case read_table parse w3 right None 0 CHR '' '' [''vertex''] of
                     Inl e \<Rightarrow> Inl e
                   | Inr cortex_right \<Rightarrow>
                       Inr [''subcortex'' \<mapsto> rename_axis ''index'' subcortex,
                            ''cortex_left'' \<mapsto> rename_axis ''index'' cortex_left,
                            ''cortex_right'' \<mapsto> rename_axis ''index'' cortex_right])),
         w3))"

section \<open>The table reader\<close>

text \<open>
  Modelled from the spec: the table reader (\<open>pandas.read_table\<close>) is a library, not part
  of the source files. The specification describes the files as "whitespace-delimited
  text, no header row, first field is a non-negative integer index, remaining fields
  parsed per the declared schema per region", the reader as parsing each file "with the
  first column treated as the CIFTI index (used as the table's key, not a data column)
  and remaining columns named per region", and malformed text as one that "surfaces as a
  table-parsing failure". The definitions below follow these words, and the library's
  own rules where the words stop.

  The rows of a file are its non-empty lines, and the fields of a row are the pieces
  between separators. \<open>split_on\<close> is Python's \<open>str.split(sep)\<close> for a separator of one
  character. It never returns the empty list, so every row has a first field.
\<close>

fun split_on :: "char \<Rightarrow> string \<Rightarrow> string list" where
  "split_on sep [] = [[]]"
| "split_on sep (c # cs) =
     (if c = sep then [] # split_on sep cs
      else (case split_on sep cs of [] \<Rightarrow> [[c]] | f # fs \<Rightarrow> (c # f) # fs))"

definition file_rows :: "char \<Rightarrow> string \<Rightarrow> string list list" where
  "file_rows sep content =
     map (split_on sep) (filter (\<lambda>l. l \<noteq> []) (split_on (CHR 0x0A) content))"

text \<open>A row filled up to a width with empty fields, and a list without its element \<open>i\<close>.\<close>

definition pad :: "nat \<Rightarrow> string list \<Rightarrow> string list" where
  "pad width row = row @ replicate (width - length row) []"

definition pop :: "nat \<Rightarrow> 'a list \<Rightarrow> 'a list" where
  "pop i xs = take i xs @ drop (Suc i) xs"

text \<open>
  Modelled from the spec: \<open>pandas.read_table\<close> with the keyword arguments \<open>header\<close>,
  \<open>index_col\<close>, \<open>sep\<close> and \<open>names\<close>, in the library's own steps.
  \<^item> With \<open>header=None\<close> every row is data; with \<open>header=h\<close> the rows up to row \<open>h\<close> are
    dropped (the names given replace the header row).
  \<^item> The width of the table is the number of fields of the first row, or the number of
    names if that is larger. A row with more fields than the width is an error of the
    tokenizer; a row with fewer is filled up with empty fields.
  \<^item> When the first row has one field more than there are names, the column \<open>index_col\<close>
    is taken out as the index, the index has no name, and the names given name the
    remaining columns. When it has more than one field more, no index can be made.
  \<^item> When the first row has no more fields than there are names (also when there is no
    row at all), the names name all the columns: the column \<open>index_col\<close> becomes the
    index, under its own name, and only the other names are left as data columns.

  A cell holds the text of its field. Quoted fields and carriage returns are not
  modelled: the text is taken to hold no double quote and no carriage return. The names
  are taken to be distinct. An error is the start of its message.
\<close>

definition pandas_read_table :: parser where
  "pandas_read_table header index_col sep names content =
     (let rows = file_rows sep content;
          rows = (case header of None \<Rightarrow> rows | Some h \<Rightarrow> drop (Suc h) rows);
          width = (case rows of [] \<Rightarrow> length names
                   | first # _ \<Rightarrow> max (length first) (length names));
          leading_cols = width - length names
      in if \<exists>row \<in> set rows. width < length row then Inl ''Error tokenizing data''
         else if leading_cols = 0 then
           (if index_col < length names
            then Inr \<lparr>index_name = Some (names ! index_col),
                      index = map (\<lambda>row. pad width row ! index_col) rows,
                      columns = pop index_col names,
                      cells = map (\<lambda>row. pop index_col (pad width row)) rows\<rparr>
            else Inl ''list index out of range'')
         else if leading_cols = 1 then
           (if index_col < width
            then Inr \<lparr>index_name = None,
                      index = map (\<lambda>row. pad width row ! index_col) rows,
                      columns = names,
                      cells = map (\<lambda>row. pop index_col (pad width row)) rows\<rparr>
            else Inl ''list index out of range'')
         else Inl ''Could not construct index'')"

text \<open>
  A file in the format the specification gives for a table of \<open>k\<close> data columns: at
  least one row; the first row is the index and \<open>k\<close> more fields, with single spaces
  between them; no row has more fields than the first; no double quote or carriage
  return anywhere.
\<close>

definition table_text :: "nat \<Rightarrow> string \<Rightarrow> bool" where
  "table_text k content \<longleftrightarrow>
     (case file_rows CHR '' '' content of
        [] \<Rightarrow> False
      | first # rest \<Rightarrow>
          length first = Suc k \<and> list_all (\<lambda>row. length row \<le> Suc k) rest)
     \<and> CHR 0x22 \<notin> set content \<and> CHR 0x0D \<notin> set content"

section \<open>Case conversion\<close>

lemma char_upper_lower: "char_upper (char_lower c) = char_upper c"
  unfolding char_upper_def char_lower_def Let_def by auto

lemma char_lower_upper: "char_lower (char_upper c) = char_lower c"
  unfolding char_upper_def char_lower_def Let_def by auto

lemma upper_lower: "upper (lower s) = upper s"
  by (simp add: upper_def lower_def char_upper_lower)

lemma lower_upper: "lower (upper s) = lower s"
  by (simp add: upper_def lower_def char_lower_upper)

lemma upper_structures:
  "map upper structures =
     [''DIENCEPHALON_VENTRAL'', ''BRAIN_STEM'', ''THALAMUS'', ''CEREBELLUM'',
      ''HIPPOCAMPUS'', ''PALLIDUM'', ''ACCUMBENS'', ''PUTAMEN'', ''AMYGDALA'',
      ''CAUDATE'', ''CORTEX'']"
  by code_simp

lemma upper_left: "upper ''left'' = ''LEFT''"
  by code_simp

lemma upper_right: "upper ''right'' = ''RIGHT''"
  by code_simp

lemma lower_BRAIN_STEM: "lower ''BRAIN_STEM'' = ''brain_stem''"
  by code_simp

lemma upper_brain_stem: "upper ''brain_stem'' = ''BRAIN_STEM''"
  by code_simp

lemma upper_of_structure:
  assumes "lower s \<in> set structures"
  shows "upper s \<in> set (map upper structures)"
proof -
  have "upper (lower s) \<in> upper ` set structures"
    using assms by (rule imageI)
  then show ?thesis
    by (simp add: upper_lower)
qed

lemma upper_BRAIN_STEM_iff: "upper s = ''BRAIN_STEM'' \<longleftrightarrow> lower s = ''brain_stem''"
proof
  assume "upper s = ''BRAIN_STEM''"
  then have "lower (upper s) = lower ''BRAIN_STEM''" by simp
  then show "lower s = ''brain_stem''"
    by (simp only: lower_upper lower_BRAIN_STEM)
next
  assume "lower s = ''brain_stem''"
  then have "upper (lower s) = upper ''brain_stem''" by simp
  then show "upper s = ''BRAIN_STEM''"
    by (simp only: upper_lower upper_brain_stem)
qed

lemma upper_hemisphere:
  assumes "lower h = ''left'' \<or> lower h = ''right''"
  shows "upper h = ''LEFT'' \<and> lower h = ''left'' \<or> upper h = ''RIGHT'' \<and> lower h = ''right''"
proof -
  have "upper (lower h) = ''LEFT'' \<and> lower h = ''left''
      \<or> upper (lower h) = ''RIGHT'' \<and> lower h = ''right''"
    using assms upper_left upper_right by auto
  then show ?thesis
    by (simp only: upper_lower)
qed

section \<open>\<open>make_fs_key\<close>: what it returns and when it fails\<close>

text \<open>The four assertions, folded into one condition per kind of hemisphere argument.\<close>

lemma make_fs_key_Some:
  "make_fs_key s (Some h) =
     (if lower s \<in> set structures \<and> (lower h = ''left'' \<or> lower h = ''right'')
         \<and> lower s \<noteq> ''brain_stem''
      then Inr (upper s @ ''_'' @ upper h) else Inl AssertionError)"
  by (auto simp add: make_fs_key_def upper_BRAIN_STEM_iff upper_lower)

lemma make_fs_key_None:
  "make_fs_key s None =
     (if lower s = ''brain_stem'' then Inr ''BRAIN_STEM'' else Inl AssertionError)"
  by (auto simp add: make_fs_key_def upper_BRAIN_STEM_iff structures_def)

text \<open>
  C1. For a structure of the fixed set other than brain_stem and a hemisphere left or
  right, both matched without regard to case, \<open>make_fs_key\<close> returns the upper-cased
  structure name, an underscore and the upper-cased hemisphere. For brain_stem (in any
  case) and no hemisphere it returns \<open>BRAIN_STEM\<close>.
\<close>

theorem make_fs_key_label:
  "(lower structure \<in> set structures \<longrightarrow> lower structure \<noteq> ''brain_stem'' \<longrightarrow>
      lower hemisphere \<in> {''left'', ''right''} \<longrightarrow>
      make_fs_key structure (Some hemisphere) = Inr (upper structure @ ''_'' @ upper hemisphere))
   \<and> (lower structure = ''brain_stem'' \<longrightarrow> make_fs_key structure None = Inr ''BRAIN_STEM'')
   \<and> make_fs_key ''brain_stem'' None = Inr ''BRAIN_STEM''"
  by (simp add: make_fs_key_Some make_fs_key_None upper_BRAIN_STEM_iff[symmetric] upper_brain_stem)

theorem make_fs_key_label_witness:
  "make_fs_key ''Cortex'' (Some ''LEFT'') = Inr ''CORTEX_LEFT''
   \<and> make_fs_key ''Brain_Stem'' None = Inr ''BRAIN_STEM''"
proof -
  have 1: "lower ''Cortex'' = ''cortex''" by code_simp
  have 2: "lower ''LEFT'' = ''left''" by code_simp
  have 3: "upper ''Cortex'' = ''CORTEX''" by code_simp
  have 4: "upper ''LEFT'' = ''LEFT''" by code_simp
  have 5: "lower ''Brain_Stem'' = ''brain_stem''" by code_simp
  show ?thesis
    using make_fs_key_label [of "''Cortex''" "''LEFT''"]
      make_fs_key_label [of "''Brain_Stem''" "''LEFT''"]
    by (simp add: 1 2 3 4 5 structures_def)
qed

text \<open>
  C2. \<open>make_fs_key\<close> fails exactly when the lower-cased structure is not in the fixed
  set, or the hemisphere is given and is neither left nor right in any case, or no
  hemisphere is given and the structure is not brain_stem, or the hemisphere is left or
  right and the structure is brain_stem. Every failure is a failed assertion. The two
  calls the specification names fail.
\<close>

theorem make_fs_key_fails_iff:
  "(isl (make_fs_key structure hemisphere) \<longleftrightarrow>
      lower structure \<notin> set structures
      \<or> (\<exists>h. hemisphere = Some h \<and> lower h \<noteq> ''left'' \<and> lower h \<noteq> ''right'')
      \<or> (hemisphere = None \<and> lower structure \<noteq> ''brain_stem'')
      \<or> (\<exists>h. hemisphere = Some h \<and> (lower h = ''left'' \<or> lower h = ''right'')
            \<and> lower structure = ''brain_stem''))
   \<and> (isl (make_fs_key structure hemisphere) \<longrightarrow>
        make_fs_key structure hemisphere = Inl AssertionError)
   \<and> make_fs_key ''brain_stem'' (Some ''left'') = Inl AssertionError
   \<and> make_fs_key ''made_up_structure'' None = Inl AssertionError"
proof -
  have bs: "''brain_stem'' \<in> set structures"
    by (simp add: structures_def)
  have a: "make_fs_key ''brain_stem'' (Some ''left'') = Inl AssertionError"
    by code_simp
  have b: "make_fs_key ''made_up_structure'' None = Inl AssertionError"
    by code_simp
  show ?thesis
  proof (cases hemisphere)
    case None
    then show ?thesis using bs a b
      by (auto simp add: make_fs_key_None)
  next
    case (Some h)
    then show ?thesis using a b
      by (auto simp add: make_fs_key_Some)
  qed
qed

theorem make_fs_key_fails_iff_witness:
  "isl (make_fs_key ''Thalamus'' None) \<and> isl (make_fs_key ''cortex'' (Some ''middle''))
   \<and> \<not> isl (make_fs_key ''THALAMUS'' (Some ''Right''))"
proof -
  have 1: "lower ''Thalamus'' = ''thalamus''" by code_simp
  have 2: "lower ''cortex'' = ''cortex''" by code_simp
  have 3: "lower ''middle'' = ''middle''" by code_simp
  have 4: "lower ''THALAMUS'' = ''thalamus''" by code_simp
  have 5: "lower ''Right'' = ''right''" by code_simp
  have a: "isl (make_fs_key ''Thalamus'' None)"
    using make_fs_key_fails_iff [THEN conjunct1, of "''Thalamus''" None]
    by (simp add: 1)
  have b: "isl (make_fs_key ''cortex'' (Some ''middle''))"
    using make_fs_key_fails_iff [THEN conjunct1, of "''cortex''" "Some ''middle''"]
    by (simp add: 2 3)
  have c: "\<not> isl (make_fs_key ''THALAMUS'' (Some ''Right''))"
    using make_fs_key_fails_iff [THEN conjunct1, of "''THALAMUS''" "Some ''Right''"]
    by (simp add: 4 5 structures_def)
  show ?thesis
    using a b c by simp
qed

text \<open>
  C3. Every label \<open>make_fs_key\<close> returns is one of the 21 names of
  \<open>freesurfer_structures\<close>.
\<close>

theorem make_fs_key_in_freesurfer_structures:
  assumes "make_fs_key structure hemisphere = Inr label"
  shows "label \<in> set freesurfer_structures \<and> length freesurfer_structures = 21"
proof (cases hemisphere)
  case None
  then have "label = ''BRAIN_STEM''"
    using assms by (simp add: make_fs_key_None split: if_splits)
  then show ?thesis
    by (simp add: freesurfer_structures_def)
next
  case (Some h)
  with assms have s: "lower structure \<in> set structures"
    and h: "lower h = ''left'' \<or> lower h = ''right''"
    and nb: "lower structure \<noteq> ''brain_stem''"
    and l: "label = upper structure @ ''_'' @ upper h"
    by (auto simp add: make_fs_key_Some split: if_splits)
  have us: "upper structure \<in> set (map upper structures)"
    using s by (rule upper_of_structure)
  have unb: "upper structure \<noteq> ''BRAIN_STEM''"
    using nb by (simp add: upper_BRAIN_STEM_iff)
  have uh: "upper h = ''LEFT'' \<or> upper h = ''RIGHT''"
    using upper_hemisphere [OF h] by blast
  show ?thesis
    using us unb uh unfolding l upper_structures freesurfer_structures_def
    by auto
qed

theorem make_fs_key_in_freesurfer_structures_witness:
  "make_fs_key ''Putamen'' (Some ''right'') = Inr ''PUTAMEN_RIGHT''
   \<and> ''PUTAMEN_RIGHT'' \<in> set freesurfer_structures"
proof -
  have k: "make_fs_key ''Putamen'' (Some ''right'') = Inr ''PUTAMEN_RIGHT''"
    by code_simp
  show ?thesis
    using k make_fs_key_in_freesurfer_structures [OF k] by simp
qed

section \<open>\<open>make_fs_key\<close> is one-to-one onto the label set\<close>

lemma left_right_differ: "a @ ''_LEFT'' \<noteq> b @ ''_RIGHT''"
proof
  assume "a @ ''_LEFT'' = b @ ''_RIGHT''"
  then have "rev (a @ ''_LEFT'') = rev (b @ ''_RIGHT'')" by (rule arg_cong)
  then show False by simp
qed

lemma left_not_brain_stem: "a @ ''_LEFT'' \<noteq> ''BRAIN_STEM''"
proof
  assume "a @ ''_LEFT'' = ''BRAIN_STEM''"
  then have "rev (a @ ''_LEFT'') = rev ''BRAIN_STEM''" by (rule arg_cong)
  then show False by simp
qed

lemma right_not_brain_stem: "a @ ''_RIGHT'' \<noteq> ''BRAIN_STEM''"
proof
  assume "a @ ''_RIGHT'' = ''BRAIN_STEM''"
  then have "rev (a @ ''_RIGHT'') = rev ''BRAIN_STEM''" by (rule arg_cong)
  then show False by simp
qed

lemma lower_eq_of_upper_eq:
  assumes "upper s = upper s'"
  shows "lower s = lower s'"
proof -
  have "lower (upper s) = lower (upper s')"
    using assms by simp
  then show ?thesis
    by (simp only: lower_upper)
qed

lemma make_fs_key_Inr_Some:
  assumes "make_fs_key s (Some h) = Inr l"
  shows "lower s \<in> set structures \<and> lower s \<noteq> ''brain_stem''
    \<and> (l = upper s @ ''_LEFT'' \<and> lower h = ''left''
       \<or> l = upper s @ ''_RIGHT'' \<and> lower h = ''right'')"
proof -
  from assms have s: "lower s \<in> set structures"
    and h: "lower h = ''left'' \<or> lower h = ''right''"
    and nb: "lower s \<noteq> ''brain_stem''"
    and l: "l = upper s @ ''_'' @ upper h"
    by (auto simp add: make_fs_key_Some split: if_splits)
  show ?thesis
    using s nb l upper_hemisphere [OF h] by auto
qed

lemma make_fs_key_Inr_None:
  assumes "make_fs_key s None = Inr l"
  shows "lower s = ''brain_stem'' \<and> l = ''BRAIN_STEM''"
  using assms by (simp add: make_fs_key_None split: if_splits)

text \<open>
  The shape of an accepted call: no hemisphere and brain_stem, or a hemisphere and the
  upper-cased structure followed by that hemisphere's suffix.
\<close>

lemma make_fs_key_shape:
  assumes "make_fs_key s h = Inr l"
  shows "(h = None \<and> lower s = ''brain_stem'' \<and> l = ''BRAIN_STEM'')
    \<or> (\<exists>a. h = Some a \<and> lower a = ''left'' \<and> l = upper s @ ''_LEFT'')
    \<or> (\<exists>a. h = Some a \<and> lower a = ''right'' \<and> l = upper s @ ''_RIGHT'')"
proof (cases h)
  case None
  then show ?thesis
    using make_fs_key_Inr_None [of s l] assms by simp
next
  case (Some a)
  then show ?thesis
    using make_fs_key_Inr_Some [of s a l] assms by blast
qed

lemma make_fs_key_inj:
  assumes "make_fs_key s h = Inr l" and "make_fs_key s' h' = Inr l"
  shows "lower s = lower s' \<and> map_option lower h = map_option lower h'"
proof -
  define L where "L = ''_LEFT''"
  define R where "R = ''_RIGHT''"
  define B where "B = ''BRAIN_STEM''"
  define b where "b = ''brain_stem''"
  define le where "le = ''left''"
  define ri where "ri = ''right''"
  have LR: "\<And>x y. x @ L \<noteq> y @ R"
    unfolding L_def R_def by (rule left_right_differ)
  have LB: "\<And>x. x @ L \<noteq> B"
    unfolding L_def B_def by (rule left_not_brain_stem)
  have RB: "\<And>x. x @ R \<noteq> B"
    unfolding R_def B_def by (rule right_not_brain_stem)
  have low: "\<And>x y. upper x = upper y \<Longrightarrow> lower x = lower y"
    by (rule lower_eq_of_upper_eq)
  have 1: "(h = None \<and> lower s = b \<and> l = B)
    \<or> (\<exists>a. h = Some a \<and> lower a = le \<and> l = upper s @ L)
    \<or> (\<exists>a. h = Some a \<and> lower a = ri \<and> l = upper s @ R)"
    unfolding L_def R_def B_def b_def le_def ri_def
    using assms(1) by (rule make_fs_key_shape)
  have 2: "(h' = None \<and> lower s' = b \<and> l = B)
    \<or> (\<exists>a. h' = Some a \<and> lower a = le \<and> l = upper s' @ L)
    \<or> (\<exists>a. h' = Some a \<and> lower a = ri \<and> l = upper s' @ R)"
    unfolding L_def R_def B_def b_def le_def ri_def
    using assms(2) by (rule make_fs_key_shape)
  from 1 show ?thesis
  proof (elim disjE exE conjE)
    assume n: "h = None" "lower s = b" "l = B"
    from 2 have "h' = None \<and> lower s' = b"
      using n(3) LB RB by metis
    then show ?thesis
      using n by simp
  next
    fix a assume a: "h = Some a" "lower a = le" "l = upper s @ L"
    from 2 obtain a' where "h' = Some a'" "lower a' = le" "upper s @ L = upper s' @ L"
      using a(3) LB LR by metis
    then show ?thesis
      using a low [of s s'] by simp
  next
    fix a assume a: "h = Some a" "lower a = ri" "l = upper s @ R"
    from 2 obtain a' where "h' = Some a'" "lower a' = ri" "upper s @ R = upper s' @ R"
      using a(3) RB LR by metis
    then show ?thesis
      using a low [of s s'] by simp
  qed
qed

lemma make_fs_key_cong:
  assumes "lower s = lower s'" and "map_option lower h = map_option lower h'"
  shows "make_fs_key s h = make_fs_key s' h'"
proof -
  have u: "upper s = upper s'"
    using assms(1) upper_lower [of s] upper_lower [of s'] by simp
  show ?thesis
  proof (cases h)
    case None
    then show ?thesis
      using assms by (simp add: make_fs_key_None)
  next
    case (Some a)
    then obtain b where b: "h' = Some b" "lower a = lower b"
      using assms(2) by (cases h') auto
    have "upper a = upper b"
      using b(2) upper_lower [of a] upper_lower [of b] by simp
    then show ?thesis
      using Some b u assms(1) by (simp add: make_fs_key_Some)
  qed
qed

text \<open>
  The valid inputs in lower case, brain_stem first and then every other structure with
  each hemisphere, in the order of \<open>structures\<close>: \<open>make_fs_key\<close> maps this list to
  \<open>freesurfer_structures\<close>, element by element.
\<close>

lemma make_fs_key_enumerates:
  "map (\<lambda>(s, h). make_fs_key s h)
     ((''brain_stem'', None) #
      concat (map (\<lambda>s. [(s, Some ''left''), (s, Some ''right'')])
        (remove1 ''brain_stem'' structures)))
   = map Inr freesurfer_structures"
  by code_simp

lemma make_fs_key_onto:
  assumes "l \<in> set freesurfer_structures"
  shows "\<exists>s h. make_fs_key s h = Inr l"
proof -
  have "Inr l \<in> set (map Inr freesurfer_structures :: (error + string) list)"
    using assms by simp
  then have "Inr l \<in> (\<lambda>(s, h). make_fs_key s h) `
      set ((''brain_stem'', None) #
        concat (map (\<lambda>s. [(s, Some ''left''), (s, Some ''right'')])
          (remove1 ''brain_stem'' structures)))"
    unfolding make_fs_key_enumerates [symmetric] by (simp only: set_map)
  then obtain p where "Inr l = (\<lambda>(s, h). make_fs_key s h) p"
    by (rule imageE)
  then have "make_fs_key (fst p) (snd p) = Inr l"
    by (simp add: case_prod_beta)
  then show ?thesis by blast
qed

lemma distinct_freesurfer_structures: "distinct freesurfer_structures"
  by (simp add: freesurfer_structures_def)

lemma valid_inputs_up_to_case:
  "{(lower s, map_option lower h) | s h. \<exists>l. make_fs_key s h = Inr l}
   = set ((''brain_stem'', None) #
      concat (map (\<lambda>s. [(s, Some ''left''), (s, Some ''right'')])
        (remove1 ''brain_stem'' structures)))"
  (is "?V = set ?inputs")
proof
  show "?V \<subseteq> set ?inputs"
  proof
    fix p assume "p \<in> ?V"
    then obtain s h l where p: "p = (lower s, map_option lower h)"
      and k: "make_fs_key s h = Inr l" by blast
    show "p \<in> set ?inputs"
    proof (cases h)
      case None
      then show ?thesis
        using make_fs_key_Inr_None [of s l] k p by simp
    next
      case (Some a)
      then have "lower s \<in> set structures \<and> lower s \<noteq> ''brain_stem''
        \<and> (lower a = ''left'' \<or> lower a = ''right'')"
        using make_fs_key_Inr_Some [of s a l] k by auto
      then show ?thesis
        using p Some by (auto simp add: structures_def)
    qed
  qed
next
  have fixed: "\<forall>(s, h) \<in> set ?inputs.
    lower s = s \<and> map_option lower h = h \<and> \<not> isl (make_fs_key s h)"
    by code_simp
  show "set ?inputs \<subseteq> ?V"
  proof
    fix p assume "p \<in> set ?inputs"
    then have "lower (fst p) = fst p \<and> map_option lower (snd p) = snd p
      \<and> \<not> isl (make_fs_key (fst p) (snd p))"
      using fixed by (auto simp add: case_prod_beta)
    then have "p = (lower (fst p), map_option lower (snd p))
      \<and> (\<exists>l. make_fs_key (fst p) (snd p) = Inr l)"
      by (cases "make_fs_key (fst p) (snd p)") auto
    then show "p \<in> ?V" by blast
  qed
qed

lemma card_valid_inputs:
  "card {(lower s, map_option lower h) | s h. \<exists>l. make_fs_key s h = Inr l} = 21"
proof -
  have "distinct ((''brain_stem'', None) #
      concat (map (\<lambda>s. [(s, Some ''left''), (s, Some ''right'')])
        (remove1 ''brain_stem'' structures)))"
    by (simp add: structures_def)
  then show ?thesis
    unfolding valid_inputs_up_to_case
    by (simp add: distinct_card structures_def)
qed

text \<open>
  C9. Two accepted inputs with the same label are equal up to case, and inputs equal up
  to case have the same outcome; the labels returned are exactly the names of
  \<open>freesurfer_structures\<close>; there are 21 accepted inputs up to case and 21 pairwise
  distinct names.
\<close>

theorem make_fs_key_bijection:
  "(\<forall>s h s' h' l. make_fs_key s h = Inr l \<and> make_fs_key s' h' = Inr l \<longrightarrow>
      lower s = lower s' \<and> map_option lower h = map_option lower h')
   \<and> (\<forall>s h s' h'. lower s = lower s' \<and> map_option lower h = map_option lower h' \<longrightarrow>
      make_fs_key s h = make_fs_key s' h')
   \<and> {l. \<exists>s h. make_fs_key s h = Inr l} = set freesurfer_structures
   \<and> card {(lower s, map_option lower h) | s h. \<exists>l. make_fs_key s h = Inr l} = 21
   \<and> card (set freesurfer_structures) = 21
   \<and> distinct freesurfer_structures"
proof -
  have inj: "\<forall>s h s' h' l. make_fs_key s h = Inr l \<and> make_fs_key s' h' = Inr l \<longrightarrow>
      lower s = lower s' \<and> map_option lower h = map_option lower h'"
    using make_fs_key_inj by blast
  have cong: "\<forall>s h s' h'. lower s = lower s' \<and> map_option lower h = map_option lower h' \<longrightarrow>
      make_fs_key s h = make_fs_key s' h'"
    using make_fs_key_cong by blast
  have into: "\<And>s h l. make_fs_key s h = Inr l \<Longrightarrow> l \<in> set freesurfer_structures"
  proof -
    fix s h l assume k: "make_fs_key s h = Inr l"
    show "l \<in> set freesurfer_structures"
    proof (cases h)
      case None
      then show ?thesis
        using make_fs_key_Inr_None [of s l] k by (simp add: freesurfer_structures_def)
    next
      case (Some a)
      have "upper s \<in> set (map upper structures)"
        using make_fs_key_Inr_Some [of s a l] k Some upper_of_structure by simp
      moreover have "upper s \<noteq> ''BRAIN_STEM''"
        using make_fs_key_Inr_Some [of s a l] k Some by (simp add: upper_BRAIN_STEM_iff)
      moreover have "l = upper s @ ''_LEFT'' \<or> l = upper s @ ''_RIGHT''"
        using make_fs_key_Inr_Some [of s a l] k Some by auto
      ultimately show ?thesis
        unfolding upper_structures freesurfer_structures_def by auto
    qed
  qed
  have range: "{l. \<exists>s h. make_fs_key s h = Inr l} = set freesurfer_structures"
    using into make_fs_key_onto by blast
  have card: "card (set freesurfer_structures) = 21"
    using distinct_freesurfer_structures
    by (simp add: distinct_card) (simp add: freesurfer_structures_def)
  show ?thesis
    using inj cong range card_valid_inputs card distinct_freesurfer_structures
    by (intro conjI)
qed

theorem make_fs_key_bijection_witness:
  "lower ''Caudate'' = lower ''CAUDATE'' \<and> make_fs_key ''Caudate'' (Some ''left'') = Inr ''CAUDATE_LEFT''"
proof -
  have k1: "make_fs_key ''Caudate'' (Some ''left'') = Inr ''CAUDATE_LEFT''"
    by code_simp
  have k2: "make_fs_key ''CAUDATE'' (Some ''Left'') = Inr ''CAUDATE_LEFT''"
    by code_simp
  have "\<forall>s h s' h' l. make_fs_key s h = Inr l \<and> make_fs_key s' h' = Inr l \<longrightarrow>
      lower s = lower s' \<and> map_option lower h = map_option lower h'"
    using make_fs_key_bijection by (rule conjunct1)
  then have "lower ''Caudate'' = lower ''CAUDATE''"
    using k1 k2 by blast
  then show ?thesis
    using k1 by simp
qed

section \<open>\<open>export_cifti_mapping\<close>: the world it leaves and the result it returns\<close>

lemma files_system: "files (snd (system sh cmd w)) = snd (sh cmd (files w))"
  by (simp add: system_def case_prod_beta)

lemma commands_system: "commands (snd (system sh cmd w)) = commands w @ [cmd]"
  by (simp add: system_def case_prod_beta)

lemma read_table_files:
  assumes "files w path = files w' path"
  shows "read_table parse w path header index_col sep names = read_table parse w' path header index_col sep names"
  using assms by (simp add: read_table_def)

lemma read_table_Inl:
  "read_table parse w path header index_col sep names = Inl e \<longleftrightarrow>
     (files w path = None \<and> e = FileNotFoundError path)
     \<or> (\<exists>content msg. files w path = Some content \<and> parse header index_col sep names content = Inl msg
          \<and> e = ParserError msg)"
  by (auto simp add: read_table_def split: option.splits sum.splits)

lemma read_table_Inr:
  "read_table parse w path header index_col sep names = Inr t \<longleftrightarrow>
     (\<exists>content. files w path = Some content \<and> parse header index_col sep names content = Inr t)"
  by (auto simp add: read_table_def split: option.splits sum.splits)

text \<open>The world at exit: the file system the third command left, and three more commands.\<close>

lemma files_at_exit:
  "files (snd (export_cifti_mapping parcel_labels_lr tempdir sh parse img w)) =
     (let path = (case img of None \<Rightarrow> parcel_labels_lr | Some p \<Rightarrow> p) in
      snd (sh (basecmd path @ ''-surface CORTEX_RIGHT '' @ quoted (join tempdir ''right.txt''))
       (snd (sh (basecmd path @ ''-surface CORTEX_LEFT '' @ quoted (join tempdir ''left.txt''))
        (snd (sh (basecmd path @ '' -volume-all '' @ quoted (join tempdir ''volume.txt'')
                    @ '' -structure '')
          (files w)))))))"
  by (simp add: export_cifti_mapping_def Let_def files_system)

lemma commands_at_exit:
  "commands (snd (export_cifti_mapping parcel_labels_lr tempdir sh parse img w)) =
     (let path = (case img of None \<Rightarrow> parcel_labels_lr | Some p \<Rightarrow> p) in
      commands w @
       [basecmd path @ '' -volume-all '' @ quoted (join tempdir ''volume.txt'') @ '' -structure '',
        basecmd path @ ''-surface CORTEX_LEFT '' @ quoted (join tempdir ''left.txt''),
        basecmd path @ ''-surface CORTEX_RIGHT '' @ quoted (join tempdir ''right.txt'')])"
  by (simp add: export_cifti_mapping_def Let_def commands_system)

text \<open>The result, in terms of the world at exit.\<close>

lemma export_result:
  "fst (export_cifti_mapping parcel_labels_lr tempdir sh parse img w) =
     (let w3 = snd (export_cifti_mapping parcel_labels_lr tempdir sh parse img w) in
      case read_table parse w3 (join tempdir ''volume.txt'') None 0 CHR '' ''
             [''structure'', ''mni_i'', ''mni_j'', ''mni_k''] of
        Inl e \<Rightarrow> Inl e
      | Inr subcortex \<Rightarrow>
          (case read_table parse w3 (join tempdir ''left.txt'') None 0 CHR '' '' [''vertex''] of
             Inl e \<Rightarrow> Inl e
           | Inr cortex_left \<Rightarrow>
               (case read_table parse w3 (join tempdir ''right.txt'') None 0 CHR '' '' [''vertex''] of
                  Inl e \<Rightarrow> Inl e
                | Inr cortex_right \<Rightarrow>
                    Inr [''subcortex'' \<mapsto> rename_axis ''index'' subcortex,
                         ''cortex_left'' \<mapsto> rename_axis ''index'' cortex_left,
                         ''cortex_right'' \<mapsto> rename_axis ''index'' cortex_right])))"
  by (simp add: export_cifti_mapping_def Let_def)

lemma export_result_files:
  assumes "files (snd (export_cifti_mapping d tempdir sh parse img w)) (join tempdir ''volume.txt'')
         = files (snd (export_cifti_mapping d' tempdir sh' parse img' w')) (join tempdir ''volume.txt'')"
    and "files (snd (export_cifti_mapping d tempdir sh parse img w)) (join tempdir ''left.txt'')
         = files (snd (export_cifti_mapping d' tempdir sh' parse img' w')) (join tempdir ''left.txt'')"
    and "files (snd (export_cifti_mapping d tempdir sh parse img w)) (join tempdir ''right.txt'')
         = files (snd (export_cifti_mapping d' tempdir sh' parse img' w')) (join tempdir ''right.txt'')"
  shows "fst (export_cifti_mapping d tempdir sh parse img w)
       = fst (export_cifti_mapping d' tempdir sh' parse img' w')"
  unfolding export_result Let_def
  by (simp only: read_table_files [OF assms(1)] read_table_files [OF assms(2)]
      read_table_files [OF assms(3)])

lemma export_same_effect:
  assumes "\<forall>cmd fs. snd (sh cmd fs) = snd (sh' cmd fs)"
  shows "export_cifti_mapping d tempdir sh parse img w
       = export_cifti_mapping d tempdir sh' parse img w"
proof -
  have "\<And>cmd v. snd (system sh cmd v) = snd (system sh' cmd v)"
    using assms by (simp add: system_def case_prod_beta)
  then show ?thesis
    by (simp add: export_cifti_mapping_def)
qed

lemma export_fails_iff:
  "isl (fst (export_cifti_mapping d tempdir sh parse img w)) \<longleftrightarrow>
     (let w3 = snd (export_cifti_mapping d tempdir sh parse img w) in
      isl (read_table parse w3 (join tempdir ''volume.txt'') None 0 CHR '' ''
             [''structure'', ''mni_i'', ''mni_j'', ''mni_k''])
      \<or> isl (read_table parse w3 (join tempdir ''left.txt'') None 0 CHR '' '' [''vertex''])
      \<or> isl (read_table parse w3 (join tempdir ''right.txt'') None 0 CHR '' '' [''vertex'']))"
  unfolding export_result Let_def by (simp split: sum.splits)

lemma export_error:
  assumes "fst (export_cifti_mapping d tempdir sh parse img w) = Inl e"
  shows "(let w3 = snd (export_cifti_mapping d tempdir sh parse img w) in
      read_table parse w3 (join tempdir ''volume.txt'') None 0 CHR '' ''
             [''structure'', ''mni_i'', ''mni_j'', ''mni_k''] = Inl e
      \<or> read_table parse w3 (join tempdir ''left.txt'') None 0 CHR '' '' [''vertex''] = Inl e
      \<or> read_table parse w3 (join tempdir ''right.txt'') None 0 CHR '' '' [''vertex''] = Inl e)"
  using assms unfolding export_result Let_def by (simp split: sum.splits)

section \<open>\<open>export_cifti_mapping\<close>: the tables returned\<close>

lemma dom_maps:
  "dom [''subcortex'' \<mapsto> a, ''cortex_left'' \<mapsto> b, ''cortex_right'' \<mapsto> (c :: table)]
   = {''cortex_left'', ''cortex_right'', ''subcortex''}"
  by auto

lemma rename_axis_fields:
  "index (rename_axis name t) = index t \<and> columns (rename_axis name t) = columns t
   \<and> cells (rename_axis name t) = cells t \<and> index_name (rename_axis name t) = Some name"
  by (simp add: rename_axis_def)

text \<open>From the four tables of a result to what a caller can look up in the dictionary.\<close>

lemma tables_lookup:
  assumes "\<exists>maps cortex_left cortex_right subcortex.
      res = Inr maps \<and> dom maps = keys
      \<and> maps kl = Some cortex_left \<and> maps kr = Some cortex_right \<and> maps kv = Some subcortex
      \<and> length (index cortex_left) = nl \<and> length (cells cortex_left) = nl
      \<and> index cortex_left = il \<and> index_name cortex_left = a \<and> columns cortex_left = cl
      \<and> length (index cortex_right) = nr \<and> length (cells cortex_right) = nr
      \<and> index cortex_right = ir \<and> index_name cortex_right = a \<and> columns cortex_right = cr
      \<and> length (index subcortex) = nv \<and> length (cells subcortex) = nv
      \<and> index subcortex = iv \<and> index_name subcortex = a \<and> columns subcortex = cv"
  shows "\<exists>maps. res = Inr maps \<and> dom maps = keys
      \<and> map_option index (maps kl) = Some il \<and> map_option columns (maps kl) = Some cl
      \<and> map_option index (maps kr) = Some ir \<and> map_option columns (maps kr) = Some cr
      \<and> map_option index (maps kv) = Some iv \<and> map_option columns (maps kv) = Some cv
      \<and> map_option (length \<circ> cells) (maps kl) = Some nl
      \<and> map_option (length \<circ> cells) (maps kr) = Some nr
      \<and> map_option (length \<circ> cells) (maps kv) = Some nv"
proof -
  from assms obtain maps cortex_left cortex_right subcortex where
    "res = Inr maps" "dom maps = keys"
    "maps kl = Some cortex_left" "maps kr = Some cortex_right" "maps kv = Some subcortex"
    "length (cells cortex_left) = nl" "index cortex_left = il" "columns cortex_left = cl"
    "length (cells cortex_right) = nr" "index cortex_right = ir" "columns cortex_right = cr"
    "length (cells subcortex) = nv" "index subcortex = iv" "columns subcortex = cv"
    by blast
  then have "res = Inr maps \<and> dom maps = keys
      \<and> map_option index (maps kl) = Some il \<and> map_option columns (maps kl) = Some cl
      \<and> map_option index (maps kr) = Some ir \<and> map_option columns (maps kr) = Some cr
      \<and> map_option index (maps kv) = Some iv \<and> map_option columns (maps kv) = Some cv
      \<and> map_option (length \<circ> cells) (maps kl) = Some nl
      \<and> map_option (length \<circ> cells) (maps kr) = Some nr
      \<and> map_option (length \<circ> cells) (maps kv) = Some nv"
    by simp
  then show ?thesis
    by blast
qed

text \<open>The reader on a file in the format of the specification, as the source calls it.\<close>

lemma split_on_not_Nil: "split_on sep l \<noteq> []"
  by (induction l) (auto split: list.splits)

lemma file_rows_not_Nil:
  assumes "row \<in> set (file_rows sep content)"
  shows "row \<noteq> []"
  using assms split_on_not_Nil by (auto simp add: file_rows_def)

lemma pad_first:
  assumes "row \<noteq> []"
  shows "pad width row ! 0 = hd row"
  using assms by (cases row) (simp_all add: pad_def)

lemma pandas_read_table_table_text:
  assumes "table_text (length names) content"
  shows "\<exists>t. pandas_read_table None 0 CHR '' '' names content = Inr t
    \<and> index_name t = None
    \<and> index t = map hd (file_rows CHR '' '' content)
    \<and> columns t = names
    \<and> length (cells t) = length (file_rows CHR '' '' content)"
proof -
  define rows where "rows = file_rows CHR '' '' content"
  from assms obtain first rest where rows: "rows = first # rest"
    and first: "length first = Suc (length names)"
    and rest: "list_all (\<lambda>row. length row \<le> Suc (length names)) rest"
    unfolding table_text_def rows_def by (auto split: list.splits)
  have fits: "\<not> (\<exists>row \<in> set rows. Suc (length names) < length row)"
    using rows first rest by (auto simp add: list_all_iff)
  have heads: "map (\<lambda>row. pad (Suc (length names)) row ! 0) rows = map hd rows"
  proof (rule map_cong [OF refl])
    fix row assume "row \<in> set rows"
    then have "row \<noteq> []"
      unfolding rows_def by (rule file_rows_not_Nil)
    then show "pad (Suc (length names)) row ! 0 = hd row"
      by (rule pad_first)
  qed
  have "pandas_read_table None 0 CHR '' '' names content =
      Inr \<lparr>index_name = None, index = map hd rows, columns = names,
            cells = map (\<lambda>row. pop 0 (pad (Suc (length names)) row)) rows\<rparr>"
    using fits heads
    unfolding pandas_read_table_def rows_def [symmetric] Let_def
    by (simp add: rows first)
  then show ?thesis
    unfolding rows_def by simp
qed

text \<open>
  C4, as amended. Let the three files, when the third command has run, be tables in
  the format of the specification: at least one row, the first row holding the index
  and one field for each named column, no row holding more fields, no quoting. Then the
  call returns a dictionary with exactly the keys \<open>cortex_left\<close>, \<open>cortex_right\<close> and
  \<open>subcortex\<close>; each table has as many rows as its file, is indexed by the first column
  of its file (the index axis is named \<open>index\<close>), and its data columns are \<open>vertex\<close> for
  the two cortex tables and \<open>structure\<close>, \<open>mni_i\<close>, \<open>mni_j\<close>, \<open>mni_k\<close> for the
  subcortex table.
\<close>

theorem export_cifti_mapping_tables:
  assumes left: "files (snd (export_cifti_mapping parcel_labels_lr tempdir sh pandas_read_table img w))
      (join tempdir ''left.txt'') = Some left_txt"
    and right: "files (snd (export_cifti_mapping parcel_labels_lr tempdir sh pandas_read_table img w))
      (join tempdir ''right.txt'') = Some right_txt"
    and volume: "files (snd (export_cifti_mapping parcel_labels_lr tempdir sh pandas_read_table img w))
      (join tempdir ''volume.txt'') = Some volume_txt"
    and table_left: "table_text 1 left_txt"
    and table_right: "table_text 1 right_txt"
    and table_volume: "table_text 4 volume_txt"
  shows "\<exists>maps cortex_left cortex_right subcortex.
      fst (export_cifti_mapping parcel_labels_lr tempdir sh pandas_read_table img w) = Inr maps
      \<and> dom maps = {''cortex_left'', ''cortex_right'', ''subcortex''}
      \<and> maps ''cortex_left'' = Some cortex_left
      \<and> maps ''cortex_right'' = Some cortex_right
      \<and> maps ''subcortex'' = Some subcortex
      \<and> length (index cortex_left) = length (file_rows CHR '' '' left_txt)
      \<and> length (cells cortex_left) = length (file_rows CHR '' '' left_txt)
      \<and> index cortex_left = map hd (file_rows CHR '' '' left_txt)
      \<and> index_name cortex_left = Some ''index''
      \<and> columns cortex_left = [''vertex'']
      \<and> length (index cortex_right) = length (file_rows CHR '' '' right_txt)
      \<and> length (cells cortex_right) = length (file_rows CHR '' '' right_txt)
      \<and> index cortex_right = map hd (file_rows CHR '' '' right_txt)
      \<and> index_name cortex_right = Some ''index''
      \<and> columns cortex_right = [''vertex'']
      \<and> length (index subcortex) = length (file_rows CHR '' '' volume_txt)
      \<and> length (cells subcortex) = length (file_rows CHR '' '' volume_txt)
      \<and> index subcortex = map hd (file_rows CHR '' '' volume_txt)
      \<and> index_name subcortex = Some ''index''
      \<and> columns subcortex = [''structure'', ''mni_i'', ''mni_j'', ''mni_k'']"
proof -
  let ?w3 = "snd (export_cifti_mapping parcel_labels_lr tempdir sh pandas_read_table img w)"
  have "table_text (length [''vertex'']) left_txt"
    using table_left by simp
  then obtain tbl_l where kl:
    "pandas_read_table None 0 CHR '' '' [''vertex''] left_txt = Inr tbl_l"
    "index tbl_l = map hd (file_rows CHR '' '' left_txt)" "columns tbl_l = [''vertex'']"
    "length (cells tbl_l) = length (file_rows CHR '' '' left_txt)"
    using pandas_read_table_table_text [of "[''vertex'']" left_txt] by blast
  have "table_text (length [''vertex'']) right_txt"
    using table_right by simp
  then obtain tbl_r where kr:
    "pandas_read_table None 0 CHR '' '' [''vertex''] right_txt = Inr tbl_r"
    "index tbl_r = map hd (file_rows CHR '' '' right_txt)" "columns tbl_r = [''vertex'']"
    "length (cells tbl_r) = length (file_rows CHR '' '' right_txt)"
    using pandas_read_table_table_text [of "[''vertex'']" right_txt] by blast
  have four: "length [''structure'', ''mni_i'', ''mni_j'', ''mni_k''] = 4"
    by simp
  have "table_text (length [''structure'', ''mni_i'', ''mni_j'', ''mni_k'']) volume_txt"
    unfolding four by (rule table_volume)
  then obtain tbl_v where kv:
    "pandas_read_table None 0 CHR '' '' [''structure'', ''mni_i'', ''mni_j'', ''mni_k''] volume_txt
       = Inr tbl_v"
    "index tbl_v = map hd (file_rows CHR '' '' volume_txt)"
    "columns tbl_v = [''structure'', ''mni_i'', ''mni_j'', ''mni_k'']"
    "length (cells tbl_v) = length (file_rows CHR '' '' volume_txt)"
    using pandas_read_table_table_text
      [of "[''structure'', ''mni_i'', ''mni_j'', ''mni_k'']" volume_txt]
    by blast
  have rl: "read_table pandas_read_table ?w3 (join tempdir ''left.txt'') None 0 CHR '' ''
      [''vertex''] = Inr tbl_l"
    using left kl(1) by (simp add: read_table_def)
  have rr: "read_table pandas_read_table ?w3 (join tempdir ''right.txt'') None 0 CHR '' ''
      [''vertex''] = Inr tbl_r"
    using right kr(1) by (simp add: read_table_def)
  have rv: "read_table pandas_read_table ?w3 (join tempdir ''volume.txt'') None 0 CHR '' ''
      [''structure'', ''mni_i'', ''mni_j'', ''mni_k''] = Inr tbl_v"
    using volume kv(1) by (simp add: read_table_def)
  let ?maps = "[''subcortex'' \<mapsto> rename_axis ''index'' tbl_v,
      ''cortex_left'' \<mapsto> rename_axis ''index'' tbl_l,
      ''cortex_right'' \<mapsto> rename_axis ''index'' tbl_r]"
  have res: "fst (export_cifti_mapping parcel_labels_lr tempdir sh pandas_read_table img w)
      = Inr ?maps"
    unfolding export_result Let_def by (simp only: rl rr rv sum.case)
  have l: "?maps ''cortex_left'' = Some (rename_axis ''index'' tbl_l)" by simp
  have r: "?maps ''cortex_right'' = Some (rename_axis ''index'' tbl_r)" by simp
  have v: "?maps ''subcortex'' = Some (rename_axis ''index'' tbl_v)" by simp
  have fl: "length (index (rename_axis ''index'' tbl_l)) = length (file_rows CHR '' '' left_txt)
      \<and> length (cells (rename_axis ''index'' tbl_l)) = length (file_rows CHR '' '' left_txt)
      \<and> index (rename_axis ''index'' tbl_l) = map hd (file_rows CHR '' '' left_txt)
      \<and> index_name (rename_axis ''index'' tbl_l) = Some ''index''
      \<and> columns (rename_axis ''index'' tbl_l) = [''vertex'']"
    using kl(2-4) by (simp add: rename_axis_fields)
  have fr: "length (index (rename_axis ''index'' tbl_r)) = length (file_rows CHR '' '' right_txt)
      \<and> length (cells (rename_axis ''index'' tbl_r)) = length (file_rows CHR '' '' right_txt)
      \<and> index (rename_axis ''index'' tbl_r) = map hd (file_rows CHR '' '' right_txt)
      \<and> index_name (rename_axis ''index'' tbl_r) = Some ''index''
      \<and> columns (rename_axis ''index'' tbl_r) = [''vertex'']"
    using kr(2-4) by (simp add: rename_axis_fields)
  have fv: "length (index (rename_axis ''index'' tbl_v)) = length (file_rows CHR '' '' volume_txt)
      \<and> length (cells (rename_axis ''index'' tbl_v)) = length (file_rows CHR '' '' volume_txt)
      \<and> index (rename_axis ''index'' tbl_v) = map hd (file_rows CHR '' '' volume_txt)
      \<and> index_name (rename_axis ''index'' tbl_v) = Some ''index''
      \<and> columns (rename_axis ''index'' tbl_v) = [''structure'', ''mni_i'', ''mni_j'', ''mni_k'']"
    using kv(2-4) by (simp add: rename_axis_fields)
  have "fst (export_cifti_mapping parcel_labels_lr tempdir sh pandas_read_table img w) = Inr ?maps
      \<and> dom ?maps = {''cortex_left'', ''cortex_right'', ''subcortex''}
      \<and> ?maps ''cortex_left'' = Some (rename_axis ''index'' tbl_l)
      \<and> ?maps ''cortex_right'' = Some (rename_axis ''index'' tbl_r)
      \<and> ?maps ''subcortex'' = Some (rename_axis ''index'' tbl_v)
      \<and> length (index (rename_axis ''index'' tbl_l)) = length (file_rows CHR '' '' left_txt)
      \<and> length (cells (rename_axis ''index'' tbl_l)) = length (file_rows CHR '' '' left_txt)
      \<and> index (rename_axis ''index'' tbl_l) = map hd (file_rows CHR '' '' left_txt)
      \<and> index_name (rename_axis ''index'' tbl_l) = Some ''index''
      \<and> columns (rename_axis ''index'' tbl_l) = [''vertex'']
      \<and> length (index (rename_axis ''index'' tbl_r)) = length (file_rows CHR '' '' right_txt)
      \<and> length (cells (rename_axis ''index'' tbl_r)) = length (file_rows CHR '' '' right_txt)
      \<and> index (rename_axis ''index'' tbl_r) = map hd (file_rows CHR '' '' right_txt)
      \<and> index_name (rename_axis ''index'' tbl_r) = Some ''index''
      \<and> columns (rename_axis ''index'' tbl_r) = [''vertex'']
      \<and> length (index (rename_axis ''index'' tbl_v)) = length (file_rows CHR '' '' volume_txt)
      \<and> length (cells (rename_axis ''index'' tbl_v)) = length (file_rows CHR '' '' volume_txt)
      \<and> index (rename_axis ''index'' tbl_v) = map hd (file_rows CHR '' '' volume_txt)
      \<and> index_name (rename_axis ''index'' tbl_v) = Some ''index''
      \<and> columns (rename_axis ''index'' tbl_v) = [''structure'', ''mni_i'', ''mni_j'', ''mni_k'']"
    using res dom_maps [of "rename_axis ''index'' tbl_v" "rename_axis ''index'' tbl_l"
        "rename_axis ''index'' tbl_r"] l r v fl fr fv
    by (intro conjI) (elim conjE, assumption)+
  then show ?thesis
    by (intro exI)
qed

text \<open>
  At a concrete input: the tool reports failure and yet leaves three tables, the left
  one with a row that has no vertex field.
\<close>

theorem export_cifti_mapping_tables_witness:
  "\<exists>maps.
     fst (export_cifti_mapping ''/cfg/labels.dlabel.nii'' ''/tmp''
       (\<lambda>cmd fs. (1, fs(''/tmp/volume.txt'' \<mapsto> ''3 THALAMUS_LEFT 50 60 30\<newline>'',
                         ''/tmp/left.txt'' \<mapsto> ''0 7\<newline>1\<newline>'',
                         ''/tmp/right.txt'' \<mapsto> ''2 4\<newline>'')))
       pandas_read_table None \<lparr>files = Map.empty, commands = []\<rparr>) = Inr maps
     \<and> dom maps = {''cortex_left'', ''cortex_right'', ''subcortex''}
     \<and> map_option index (maps ''cortex_left'') = Some [''0'', ''1'']
     \<and> map_option columns (maps ''cortex_left'') = Some [''vertex'']
     \<and> map_option index (maps ''cortex_right'') = Some [''2'']
     \<and> map_option columns (maps ''cortex_right'') = Some [''vertex'']
     \<and> map_option index (maps ''subcortex'') = Some [''3'']
     \<and> map_option columns (maps ''subcortex'') = Some [''structure'', ''mni_i'', ''mni_j'', ''mni_k'']
     \<and> map_option (length \<circ> cells) (maps ''cortex_left'') = Some 2
     \<and> map_option (length \<circ> cells) (maps ''cortex_right'') = Some 1
     \<and> map_option (length \<circ> cells) (maps ''subcortex'') = Some 1"
proof -
  let ?sh = "\<lambda>(cmd :: string) (fs :: string \<rightharpoonup> string).
      (1 :: int, fs(''/tmp/volume.txt'' \<mapsto> ''3 THALAMUS_LEFT 50 60 30\<newline>'',
                    ''/tmp/left.txt'' \<mapsto> ''0 7\<newline>1\<newline>'',
                    ''/tmp/right.txt'' \<mapsto> ''2 4\<newline>''))"
  let ?w = "\<lparr>files = Map.empty, commands = []\<rparr>"
  have j: "join ''/tmp'' ''left.txt'' = ''/tmp/left.txt''"
    "join ''/tmp'' ''right.txt'' = ''/tmp/right.txt''"
    "join ''/tmp'' ''volume.txt'' = ''/tmp/volume.txt''"
    by (simp_all add: join_def)
  have left: "files (snd (export_cifti_mapping ''/cfg/labels.dlabel.nii'' ''/tmp'' ?sh
      pandas_read_table None ?w)) (join ''/tmp'' ''left.txt'') = Some ''0 7\<newline>1\<newline>''"
    by (simp add: files_at_exit j)
  have right: "files (snd (export_cifti_mapping ''/cfg/labels.dlabel.nii'' ''/tmp'' ?sh
      pandas_read_table None ?w)) (join ''/tmp'' ''right.txt'') = Some ''2 4\<newline>''"
    by (simp add: files_at_exit j)
  have volume: "files (snd (export_cifti_mapping ''/cfg/labels.dlabel.nii'' ''/tmp'' ?sh
      pandas_read_table None ?w)) (join ''/tmp'' ''volume.txt'')
      = Some ''3 THALAMUS_LEFT 50 60 30\<newline>''"
    by (simp add: files_at_exit j)
  have tl: "table_text 1 ''0 7\<newline>1\<newline>''"
    by (simp add: table_text_def file_rows_def)
  have tr: "table_text 1 ''2 4\<newline>''"
    by (simp add: table_text_def file_rows_def)
  have tv: "table_text 4 ''3 THALAMUS_LEFT 50 60 30\<newline>''"
    by (simp add: table_text_def file_rows_def)
  have rows: "map hd (file_rows CHR '' '' ''0 7\<newline>1\<newline>'') = [''0'', ''1'']"
    "map hd (file_rows CHR '' '' ''2 4\<newline>'') = [''2'']"
    "map hd (file_rows CHR '' '' ''3 THALAMUS_LEFT 50 60 30\<newline>'') = [''3'']"
    "length (file_rows CHR '' '' ''0 7\<newline>1\<newline>'') = 2"
    "length (file_rows CHR '' '' ''2 4\<newline>'') = 1"
    "length (file_rows CHR '' '' ''3 THALAMUS_LEFT 50 60 30\<newline>'') = 1"
    by (simp_all add: file_rows_def)
  show ?thesis
    using tables_lookup [OF export_cifti_mapping_tables [OF left right volume tl tr tv]]
    unfolding rows .
qed

text \<open>
  C4 as it was stated, for any contents, fails at two inputs. When a row of
  \<open>left.txt\<close> has a field more than the first row, the reader raises and so does the
  call. When the three files are empty, the call returns three tables without rows, and
  their data columns are not the ones named: the first name has become the name of the
  index, so the cortex tables have no column and the subcortex table has three.
\<close>

theorem export_cifti_mapping_tables_counterexample:
  "fst (export_cifti_mapping ''/cfg/labels.dlabel.nii'' ''/tmp''
       (\<lambda>cmd fs. (0, fs(''/tmp/volume.txt'' \<mapsto> ''3 THALAMUS_LEFT 50 60 30\<newline>'',
                         ''/tmp/left.txt'' \<mapsto> ''0 7\<newline>1 9 9\<newline>'',
                         ''/tmp/right.txt'' \<mapsto> ''2 4\<newline>'')))
       pandas_read_table None \<lparr>files = Map.empty, commands = []\<rparr>)
     = Inl (ParserError ''Error tokenizing data'')
   \<and> (\<exists>maps.
        fst (export_cifti_mapping ''/cfg/labels.dlabel.nii'' ''/tmp''
          (\<lambda>cmd fs. (0, fs(''/tmp/volume.txt'' \<mapsto> [], ''/tmp/left.txt'' \<mapsto> [],
                            ''/tmp/right.txt'' \<mapsto> [])))
          pandas_read_table None \<lparr>files = Map.empty, commands = []\<rparr>) = Inr maps
        \<and> map_option columns (maps ''cortex_left'') = Some []
        \<and> map_option columns (maps ''cortex_right'') = Some []
        \<and> map_option columns (maps ''subcortex'') = Some [''mni_i'', ''mni_j'', ''mni_k''])"
proof -
  let ?w = "\<lparr>files = Map.empty, commands = []\<rparr>"
  let ?ragged = "\<lambda>(cmd :: string) (fs :: string \<rightharpoonup> string).
      (0 :: int, fs(''/tmp/volume.txt'' \<mapsto> ''3 THALAMUS_LEFT 50 60 30\<newline>'',
                    ''/tmp/left.txt'' \<mapsto> ''0 7\<newline>1 9 9\<newline>'',
                    ''/tmp/right.txt'' \<mapsto> ''2 4\<newline>''))"
  let ?empty = "\<lambda>(cmd :: string) (fs :: string \<rightharpoonup> string).
      (0 :: int, fs(''/tmp/volume.txt'' \<mapsto> [], ''/tmp/left.txt'' \<mapsto> [],
                    ''/tmp/right.txt'' \<mapsto> []))"
  have j: "join ''/tmp'' ''left.txt'' = ''/tmp/left.txt''"
    "join ''/tmp'' ''right.txt'' = ''/tmp/right.txt''"
    "join ''/tmp'' ''volume.txt'' = ''/tmp/volume.txt''"
    by (simp_all add: join_def)
  have fr: "files (snd (export_cifti_mapping ''/cfg/labels.dlabel.nii'' ''/tmp'' ?ragged
      pandas_read_table None ?w))
      = [''/tmp/volume.txt'' \<mapsto> ''3 THALAMUS_LEFT 50 60 30\<newline>'',
         ''/tmp/left.txt'' \<mapsto> ''0 7\<newline>1 9 9\<newline>'',
         ''/tmp/right.txt'' \<mapsto> ''2 4\<newline>'']"
    by (simp add: files_at_exit)
  have fe: "files (snd (export_cifti_mapping ''/cfg/labels.dlabel.nii'' ''/tmp'' ?empty
      pandas_read_table None ?w))
      = [''/tmp/volume.txt'' \<mapsto> [], ''/tmp/left.txt'' \<mapsto> [], ''/tmp/right.txt'' \<mapsto> []]"
    by (simp add: files_at_exit)
  have pv: "pandas_read_table None 0 CHR '' '' [''structure'', ''mni_i'', ''mni_j'', ''mni_k'']
      ''3 THALAMUS_LEFT 50 60 30\<newline>''
      = Inr \<lparr>index_name = None, index = [''3''],
              columns = [''structure'', ''mni_i'', ''mni_j'', ''mni_k''],
              cells = [[''THALAMUS_LEFT'', ''50'', ''60'', ''30'']]\<rparr>"
    by code_simp
  have pl: "pandas_read_table None 0 CHR '' '' [''vertex''] ''0 7\<newline>1 9 9\<newline>''
      = Inl ''Error tokenizing data''"
    by code_simp
  have ev: "pandas_read_table None 0 CHR '' '' [''structure'', ''mni_i'', ''mni_j'', ''mni_k''] []
      = Inr \<lparr>index_name = Some ''structure'', index = [],
              columns = [''mni_i'', ''mni_j'', ''mni_k''], cells = []\<rparr>"
    by code_simp
  have el: "pandas_read_table None 0 CHR '' '' [''vertex''] []
      = Inr \<lparr>index_name = Some ''vertex'', index = [], columns = [], cells = []\<rparr>"
    by code_simp
  have a: "fst (export_cifti_mapping ''/cfg/labels.dlabel.nii'' ''/tmp'' ?ragged
      pandas_read_table None ?w) = Inl (ParserError ''Error tokenizing data'')"
    unfolding export_result Let_def read_table_def fr j
    by (simp add: pv pl)
  have b: "fst (export_cifti_mapping ''/cfg/labels.dlabel.nii'' ''/tmp'' ?empty
      pandas_read_table None ?w)
      = Inr [''subcortex'' \<mapsto> rename_axis ''index''
               \<lparr>index_name = Some ''structure'', index = [],
                columns = [''mni_i'', ''mni_j'', ''mni_k''], cells = []\<rparr>,
             ''cortex_left'' \<mapsto> rename_axis ''index''
               \<lparr>index_name = Some ''vertex'', index = [], columns = [], cells = []\<rparr>,
             ''cortex_right'' \<mapsto> rename_axis ''index''
               \<lparr>index_name = Some ''vertex'', index = [], columns = [], cells = []\<rparr>]"
    unfolding export_result Let_def read_table_def fe j
    by (simp add: ev el)
  have c: "\<exists>maps.
        fst (export_cifti_mapping ''/cfg/labels.dlabel.nii'' ''/tmp'' ?empty
          pandas_read_table None ?w) = Inr maps
        \<and> map_option columns (maps ''cortex_left'') = Some []
        \<and> map_option columns (maps ''cortex_right'') = Some []
        \<and> map_option columns (maps ''subcortex'') = Some [''mni_i'', ''mni_j'', ''mni_k'']"
    unfolding b by (simp add: rename_axis_def)
  show ?thesis
    using a c by (rule conjI)
qed

section \<open>\<open>export_cifti_mapping\<close>: the commands it runs\<close>

text \<open>
  C5. Whatever the outcome, the call hands exactly three command lines to \<open>os.system\<close>,
  in the order subcortex, left cortex, right cortex. Each starts with
  \<open>wb_command -cifti-export-dense-mapping '<image>' COLUMN\<close>; the first goes on with
  \<open>-volume-all '<volume.txt>' -structure\<close> and nothing after it but a space, the second
  with \<open>-surface CORTEX_LEFT '<left.txt>'\<close>, the third with
  \<open>-surface CORTEX_RIGHT '<right.txt>'\<close>.
\<close>

theorem export_cifti_mapping_commands:
  "commands (snd (export_cifti_mapping parcel_labels_lr tempdir sh parse img w)) =
     commands w @
     (let path = (case img of None \<Rightarrow> parcel_labels_lr | Some p \<Rightarrow> p);
          base = ''wb_command -cifti-export-dense-mapping '' @ [CHR 0x27] @ path @ [CHR 0x27]
                   @ '' COLUMN ''
      in [base @ '' -volume-all '' @ [CHR 0x27] @ join tempdir ''volume.txt'' @ [CHR 0x27]
            @ '' -structure '',
          base @ ''-surface CORTEX_LEFT '' @ [CHR 0x27] @ join tempdir ''left.txt'' @ [CHR 0x27],
          base @ ''-surface CORTEX_RIGHT '' @ [CHR 0x27] @ join tempdir ''right.txt''
            @ [CHR 0x27]])"
  by (simp add: commands_at_exit Let_def basecmd_def quoted_def)

theorem export_cifti_mapping_commands_witness:
  "commands (snd (export_cifti_mapping ''/cfg/labels.dlabel.nii'' ''/tmp''
       (\<lambda>cmd fs. (127, fs)) (\<lambda>header index_col sep names content. Inl ''unread'')
       (Some ''/data/x.dscalar.nii'') \<lparr>files = Map.empty, commands = [''ls'']\<rparr>)) =
     [''ls'',
      ''wb_command -cifti-export-dense-mapping '/data/x.dscalar.nii' COLUMN  -volume-all '/tmp/volume.txt' -structure '',
      ''wb_command -cifti-export-dense-mapping '/data/x.dscalar.nii' COLUMN -surface CORTEX_LEFT '/tmp/left.txt'' @ [CHR 0x27],
      ''wb_command -cifti-export-dense-mapping '/data/x.dscalar.nii' COLUMN -surface CORTEX_RIGHT '/tmp/right.txt'' @ [CHR 0x27]]"
  using export_cifti_mapping_commands [of "''/cfg/labels.dlabel.nii''" "''/tmp''"
      "\<lambda>cmd fs. (127, fs)" "\<lambda>header index_col sep names content. Inl ''unread''"
      "Some ''/data/x.dscalar.nii''" "\<lparr>files = Map.empty, commands = [''ls'']\<rparr>"]
  by (simp add: join_def)

text \<open>
  C6. With no image argument the configured \<open>parcel_labels_lr\<close> is the image of all three
  commands, and the whole call is the call with \<open>parcel_labels_lr\<close> given as the image;
  with an image argument, that path is the image of all three commands.
\<close>

theorem export_cifti_mapping_default_image:
  "export_cifti_mapping parcel_labels_lr tempdir sh parse None w
     = export_cifti_mapping parcel_labels_lr tempdir sh parse (Some parcel_labels_lr) w
   \<and> commands (snd (export_cifti_mapping parcel_labels_lr tempdir sh parse None w)) =
       commands w @
       [basecmd parcel_labels_lr @ '' -volume-all '' @ quoted (join tempdir ''volume.txt'')
          @ '' -structure '',
        basecmd parcel_labels_lr @ ''-surface CORTEX_LEFT '' @ quoted (join tempdir ''left.txt''),
        basecmd parcel_labels_lr @ ''-surface CORTEX_RIGHT '' @ quoted (join tempdir ''right.txt'')]
   \<and> commands (snd (export_cifti_mapping parcel_labels_lr tempdir sh parse (Some p) w)) =
       commands w @
       [basecmd p @ '' -volume-all '' @ quoted (join tempdir ''volume.txt'') @ '' -structure '',
        basecmd p @ ''-surface CORTEX_LEFT '' @ quoted (join tempdir ''left.txt''),
        basecmd p @ ''-surface CORTEX_RIGHT '' @ quoted (join tempdir ''right.txt'')]
   \<and> basecmd p = ''wb_command -cifti-export-dense-mapping '' @ [CHR 0x27] @ p @ [CHR 0x27]
       @ '' COLUMN ''"
proof (intro conjI)
  show "export_cifti_mapping parcel_labels_lr tempdir sh parse None w
     = export_cifti_mapping parcel_labels_lr tempdir sh parse (Some parcel_labels_lr) w"
    by (simp add: export_cifti_mapping_def)
qed (simp_all add: commands_at_exit basecmd_def quoted_def)

theorem export_cifti_mapping_default_image_witness:
  "hd (commands (snd (export_cifti_mapping ''/cfg/labels.dlabel.nii'' ''/tmp''
       (\<lambda>cmd fs. (0, fs)) (\<lambda>header index_col sep names content. Inl ''unread'')
       None \<lparr>files = Map.empty, commands = []\<rparr>))) =
     ''wb_command -cifti-export-dense-mapping '/cfg/labels.dlabel.nii' COLUMN  -volume-all '/tmp/volume.txt' -structure ''
   \<and> hd (commands (snd (export_cifti_mapping ''/cfg/labels.dlabel.nii'' ''/tmp''
       (\<lambda>cmd fs. (0, fs)) (\<lambda>header index_col sep names content. Inl ''unread'')
       (Some ''a b.nii'') \<lparr>files = Map.empty, commands = []\<rparr>))) =
     ''wb_command -cifti-export-dense-mapping 'a b.nii' COLUMN  -volume-all '/tmp/volume.txt' -structure ''"
  using export_cifti_mapping_default_image [THEN conjunct2,
      of "''/cfg/labels.dlabel.nii''" "''/tmp''"
      "\<lambda>cmd fs. (0, fs)" "\<lambda>header index_col sep names content. Inl ''unread''"
      "\<lparr>files = Map.empty, commands = []\<rparr>" "''a b.nii''"]
  by (simp add: join_def basecmd_def quoted_def)

text \<open>
  C10. With an image argument the configured default plays no part: for any two values
  of \<open>parcel_labels_lr\<close> the call returns the same result and leaves the same world, the
  commands it ran included.
\<close>

theorem export_cifti_mapping_ignores_default:
  "export_cifti_mapping default1 tempdir sh parse (Some p) w
     = export_cifti_mapping default2 tempdir sh parse (Some p) w"
  by (simp add: export_cifti_mapping_def)

theorem export_cifti_mapping_ignores_default_witness:
  "export_cifti_mapping ''/cfg/one.dlabel.nii'' ''/tmp''
       (\<lambda>cmd fs. (0, fs(''/tmp/left.txt'' \<mapsto> cmd))) (\<lambda>header index_col sep names content. Inl content)
       (Some ''/data/x.dscalar.nii'') \<lparr>files = Map.empty, commands = []\<rparr>
   = export_cifti_mapping ''/cfg/two.dlabel.nii'' ''/tmp''
       (\<lambda>cmd fs. (0, fs(''/tmp/left.txt'' \<mapsto> cmd))) (\<lambda>header index_col sep names content. Inl content)
       (Some ''/data/x.dscalar.nii'') \<lparr>files = Map.empty, commands = []\<rparr>"
  by (rule export_cifti_mapping_ignores_default)

section \<open>\<open>export_cifti_mapping\<close>: exit statuses and failures\<close>

text \<open>
  C7. The exit statuses play no part: two shells that leave the same files, whatever
  statuses they return, give the same call. The result is a function of what the three
  files hold, or that they are absent, once the third command has run. The call fails
  exactly when one of the three reads fails, and then with the error of a read: the file
  is missing, or the table reader raised on its content. Nothing is caught.
\<close>

theorem export_cifti_mapping_exit_status:
  "((\<forall>cmd fs. snd (sh cmd fs) = snd (sh' cmd fs)) \<longrightarrow>
      export_cifti_mapping d tempdir sh parse img w
        = export_cifti_mapping d tempdir sh' parse img w)
   \<and> ((\<forall>path \<in> {join tempdir ''volume.txt'', join tempdir ''left.txt'',
                    join tempdir ''right.txt''}.
         files (snd (export_cifti_mapping d tempdir sh parse img w)) path
           = files (snd (export_cifti_mapping d' tempdir sh' parse img' w')) path) \<longrightarrow>
      fst (export_cifti_mapping d tempdir sh parse img w)
        = fst (export_cifti_mapping d' tempdir sh' parse img' w'))
   \<and> (\<forall>e. fst (export_cifti_mapping d tempdir sh parse img w) = Inl e \<longrightarrow>
        (\<exists>path \<in> {join tempdir ''volume.txt'', join tempdir ''left.txt'',
                     join tempdir ''right.txt''}.
           files (snd (export_cifti_mapping d tempdir sh parse img w)) path = None
             \<and> e = FileNotFoundError path
           \<or> (\<exists>names content msg.
                 files (snd (export_cifti_mapping d tempdir sh parse img w)) path = Some content
                 \<and> parse None 0 CHR '' '' names content = Inl msg \<and> e = ParserError msg)))
   \<and> (isl (fst (export_cifti_mapping d tempdir sh parse img w)) \<longleftrightarrow>
        isl (read_table parse (snd (export_cifti_mapping d tempdir sh parse img w))
               (join tempdir ''volume.txt'') None 0 CHR '' ''
               [''structure'', ''mni_i'', ''mni_j'', ''mni_k''])
        \<or> isl (read_table parse (snd (export_cifti_mapping d tempdir sh parse img w))
               (join tempdir ''left.txt'') None 0 CHR '' '' [''vertex''])
        \<or> isl (read_table parse (snd (export_cifti_mapping d tempdir sh parse img w))
               (join tempdir ''right.txt'') None 0 CHR '' '' [''vertex'']))"
proof (intro conjI impI allI)
  assume "\<forall>cmd fs. snd (sh cmd fs) = snd (sh' cmd fs)"
  then show "export_cifti_mapping d tempdir sh parse img w
      = export_cifti_mapping d tempdir sh' parse img w"
    by (rule export_same_effect)
next
  assume "\<forall>path \<in> {join tempdir ''volume.txt'', join tempdir ''left.txt'',
                    join tempdir ''right.txt''}.
      files (snd (export_cifti_mapping d tempdir sh parse img w)) path
        = files (snd (export_cifti_mapping d' tempdir sh' parse img' w')) path"
  then show "fst (export_cifti_mapping d tempdir sh parse img w)
      = fst (export_cifti_mapping d' tempdir sh' parse img' w')"
    by (intro export_result_files) simp_all
next
  fix e
  let ?w3 = "snd (export_cifti_mapping d tempdir sh parse img w)"
  assume "fst (export_cifti_mapping d tempdir sh parse img w) = Inl e"
  then have "read_table parse ?w3 (join tempdir ''volume.txt'') None 0 CHR '' ''
        [''structure'', ''mni_i'', ''mni_j'', ''mni_k''] = Inl e
      \<or> read_table parse ?w3 (join tempdir ''left.txt'') None 0 CHR '' '' [''vertex''] = Inl e
      \<or> read_table parse ?w3 (join tempdir ''right.txt'') None 0 CHR '' '' [''vertex''] = Inl e"
    using export_error [of d tempdir sh parse img w e] by (simp add: Let_def)
  then show "\<exists>path \<in> {join tempdir ''volume.txt'', join tempdir ''left.txt'',
                     join tempdir ''right.txt''}.
      files ?w3 path = None \<and> e = FileNotFoundError path
      \<or> (\<exists>names content msg. files ?w3 path = Some content
            \<and> parse None 0 CHR '' '' names content = Inl msg \<and> e = ParserError msg)"
    unfolding read_table_Inl by blast
next
  show "isl (fst (export_cifti_mapping d tempdir sh parse img w)) \<longleftrightarrow>
        isl (read_table parse (snd (export_cifti_mapping d tempdir sh parse img w))
               (join tempdir ''volume.txt'') None 0 CHR '' ''
               [''structure'', ''mni_i'', ''mni_j'', ''mni_k''])
        \<or> isl (read_table parse (snd (export_cifti_mapping d tempdir sh parse img w))
               (join tempdir ''left.txt'') None 0 CHR '' '' [''vertex''])
        \<or> isl (read_table parse (snd (export_cifti_mapping d tempdir sh parse img w))
               (join tempdir ''right.txt'') None 0 CHR '' '' [''vertex''])"
    using export_fails_iff [of d tempdir sh parse img w] by (simp add: Let_def)
qed

text \<open>
  At a concrete input: a shell that writes nothing and reports success, and one that
  writes nothing and reports failure, end in the same missing-file error for
  \<open>volume.txt\<close>, the first file read.
\<close>

theorem export_cifti_mapping_exit_status_witness:
  "export_cifti_mapping ''/cfg/labels.dlabel.nii'' ''/tmp''
       (\<lambda>cmd fs. (0, fs)) (\<lambda>header index_col sep names content. Inl ''unread'')
       None \<lparr>files = Map.empty, commands = []\<rparr>
   = export_cifti_mapping ''/cfg/labels.dlabel.nii'' ''/tmp''
       (\<lambda>cmd fs. (127, fs)) (\<lambda>header index_col sep names content. Inl ''unread'')
       None \<lparr>files = Map.empty, commands = []\<rparr>
   \<and> fst (export_cifti_mapping ''/cfg/labels.dlabel.nii'' ''/tmp''
       (\<lambda>cmd fs. (0, fs)) (\<lambda>header index_col sep names content. Inl ''unread'')
       None \<lparr>files = Map.empty, commands = []\<rparr>) = Inl (FileNotFoundError ''/tmp/volume.txt'')"
proof -
  let ?w = "\<lparr>files = Map.empty, commands = []\<rparr>"
  have a: "export_cifti_mapping ''/cfg/labels.dlabel.nii'' ''/tmp''
       (\<lambda>cmd fs. (0, fs)) (\<lambda>header index_col sep names content. Inl ''unread'') None ?w
   = export_cifti_mapping ''/cfg/labels.dlabel.nii'' ''/tmp''
       (\<lambda>cmd fs. (127, fs)) (\<lambda>header index_col sep names content. Inl ''unread'') None ?w"
    using export_cifti_mapping_exit_status [
        where sh = "\<lambda>cmd fs. (0, fs)" and sh' = "\<lambda>cmd fs. (127, fs)"
        and d = "''/cfg/labels.dlabel.nii''" and tempdir = "''/tmp''"
        and parse = "\<lambda>header index_col sep names content. Inl ''unread''" and img = None and w = ?w,
        THEN conjunct1]
    by simp
  have f: "files (snd (export_cifti_mapping ''/cfg/labels.dlabel.nii'' ''/tmp''
       (\<lambda>cmd fs. (0, fs)) (\<lambda>header index_col sep names content. Inl ''unread'') None ?w)) = Map.empty"
    by (simp add: files_at_exit)
  have b: "fst (export_cifti_mapping ''/cfg/labels.dlabel.nii'' ''/tmp''
       (\<lambda>cmd fs. (0, fs)) (\<lambda>header index_col sep names content. Inl ''unread'') None ?w)
      = Inl (FileNotFoundError ''/tmp/volume.txt'')"
    unfolding export_result Let_def f read_table_def
    by (simp add: join_def)
  show ?thesis
    using a b by (rule conjI)
qed

section \<open>\<open>export_cifti_mapping\<close>: the temporary files\<close>

lemma join_name:
  assumes "tempdir \<noteq> []" and "last tempdir \<noteq> CHR ''/''" and "name \<noteq> []"
    and "hd name \<noteq> CHR ''/''"
  shows "join tempdir name = tempdir @ ''/'' @ name"
  using assms by (simp add: join_def)

lemma files_kept:
  assumes "\<forall>cmd fs. dom fs \<subseteq> dom (snd (sh cmd fs))"
  shows "dom (files w) \<subseteq> dom (files (snd (export_cifti_mapping d tempdir sh parse img w)))"
proof -
  have keep: "\<And>cmd fs. dom fs \<subseteq> dom (snd (sh cmd fs))"
    using assms by blast
  have "\<And>c1 c2 c3. dom (files w) \<subseteq> dom (snd (sh c3 (snd (sh c2 (snd (sh c1 (files w)))))))"
    using keep by (meson order_trans)
  then show ?thesis
    by (simp add: files_at_exit Let_def)
qed

text \<open>
  C8. The three paths are \<open>volume.txt\<close>, \<open>left.txt\<close> and \<open>right.txt\<close> joined to the
  temporary directory (directly under it, for a directory name with no slash at its
  end): they depend on nothing else, so every call with the same temporary directory
  names the same three files in its commands. The call itself does nothing to the file
  system: on every exit path the files it leaves are the files the third command left,
  and with a tool that removes no file, every file that was there before the call is
  there after it.
\<close>

theorem export_cifti_mapping_temp_files:
  "(let w3 = snd (export_cifti_mapping parcel_labels_lr tempdir sh parse img w);
        path = (case img of None \<Rightarrow> parcel_labels_lr | Some p \<Rightarrow> p);
        volume = join tempdir ''volume.txt'';
        left = join tempdir ''left.txt'';
        right = join tempdir ''right.txt'';
        c1 = basecmd path @ '' -volume-all '' @ quoted volume @ '' -structure '';
        c2 = basecmd path @ ''-surface CORTEX_LEFT '' @ quoted left;
        c3 = basecmd path @ ''-surface CORTEX_RIGHT '' @ quoted right
    in commands w3 = commands w @ [c1, c2, c3]
       \<and> files w3 = snd (sh c3 (snd (sh c2 (snd (sh c1 (files w))))))
       \<and> (tempdir \<noteq> [] \<and> last tempdir \<noteq> CHR ''/'' \<longrightarrow>
            volume = tempdir @ ''/volume.txt'' \<and> left = tempdir @ ''/left.txt''
            \<and> right = tempdir @ ''/right.txt'')
       \<and> ((\<forall>cmd fs. dom fs \<subseteq> dom (snd (sh cmd fs))) \<longrightarrow> dom (files w) \<subseteq> dom (files w3)))"
proof -
  have c: "commands (snd (export_cifti_mapping parcel_labels_lr tempdir sh parse img w)) =
     (let path = (case img of None \<Rightarrow> parcel_labels_lr | Some p \<Rightarrow> p) in
      commands w @
       [basecmd path @ '' -volume-all '' @ quoted (join tempdir ''volume.txt'') @ '' -structure '',
        basecmd path @ ''-surface CORTEX_LEFT '' @ quoted (join tempdir ''left.txt''),
        basecmd path @ ''-surface CORTEX_RIGHT '' @ quoted (join tempdir ''right.txt'')])"
    by (rule commands_at_exit)
  have f: "files (snd (export_cifti_mapping parcel_labels_lr tempdir sh parse img w)) =
     (let path = (case img of None \<Rightarrow> parcel_labels_lr | Some p \<Rightarrow> p) in
      snd (sh (basecmd path @ ''-surface CORTEX_RIGHT '' @ quoted (join tempdir ''right.txt''))
       (snd (sh (basecmd path @ ''-surface CORTEX_LEFT '' @ quoted (join tempdir ''left.txt''))
        (snd (sh (basecmd path @ '' -volume-all '' @ quoted (join tempdir ''volume.txt'')
                    @ '' -structure '')
          (files w)))))))"
    by (rule files_at_exit)
  have j: "tempdir \<noteq> [] \<and> last tempdir \<noteq> CHR ''/'' \<longrightarrow>
      join tempdir ''volume.txt'' = tempdir @ ''/volume.txt''
      \<and> join tempdir ''left.txt'' = tempdir @ ''/left.txt''
      \<and> join tempdir ''right.txt'' = tempdir @ ''/right.txt''"
    by (simp add: join_name)
  have k: "(\<forall>cmd fs. dom fs \<subseteq> dom (snd (sh cmd fs))) \<longrightarrow>
      dom (files w) \<subseteq> dom (files (snd (export_cifti_mapping parcel_labels_lr tempdir sh parse img w)))"
    by (intro impI files_kept)
  show ?thesis
    unfolding Let_def using c f j k unfolding Let_def by (intro conjI)
qed

text \<open>
  At a concrete input: the tool writes \<open>/tmp/volume.txt\<close> and nothing else, so the call
  fails on the missing \<open>/tmp/left.txt\<close>; the file that was there before the call and the
  file the tool wrote are both there after it.
\<close>

theorem export_cifti_mapping_temp_files_witness:
  "fst (export_cifti_mapping ''/cfg/labels.dlabel.nii'' ''/tmp''
       (\<lambda>cmd fs. (0, fs(''/tmp/volume.txt'' \<mapsto> ''3 THALAMUS_LEFT 50 60 30\<newline>'')))
       (\<lambda>header index_col sep names content. Inr \<lparr>index_name = None, index = [], columns = names, cells = []\<rparr>)
       None \<lparr>files = [''/tmp/keep.txt'' \<mapsto> ''kept''], commands = []\<rparr>)
     = Inl (FileNotFoundError ''/tmp/left.txt'')
   \<and> {''/tmp/keep.txt'', ''/tmp/volume.txt''} \<subseteq> dom (files (snd
       (export_cifti_mapping ''/cfg/labels.dlabel.nii'' ''/tmp''
       (\<lambda>cmd fs. (0, fs(''/tmp/volume.txt'' \<mapsto> ''3 THALAMUS_LEFT 50 60 30\<newline>'')))
       (\<lambda>header index_col sep names content. Inr \<lparr>index_name = None, index = [], columns = names, cells = []\<rparr>)
       None \<lparr>files = [''/tmp/keep.txt'' \<mapsto> ''kept''], commands = []\<rparr>)))
   \<and> join ''/tmp'' ''volume.txt'' = ''/tmp/volume.txt''"
proof -
  let ?sh = "\<lambda>(cmd :: string) (fs :: string \<rightharpoonup> string).
      (0 :: int, fs(''/tmp/volume.txt'' \<mapsto> ''3 THALAMUS_LEFT 50 60 30\<newline>''))"
  let ?parse = "\<lambda>(header :: nat option) (index_col :: nat) (sep :: char)
      (names :: string list) (content :: string).
      (Inr \<lparr>index_name = None, index = [], columns = names, cells = []\<rparr> :: string + table)"
  let ?w = "\<lparr>files = [''/tmp/keep.txt'' \<mapsto> ''kept''], commands = []\<rparr>"
  note t = export_cifti_mapping_temp_files [of "''/cfg/labels.dlabel.nii''" "''/tmp''"
      ?sh ?parse None ?w, unfolded Let_def]
  have keeps: "\<forall>cmd fs. dom fs \<subseteq> dom (snd (?sh cmd fs))"
    by auto
  have f: "files (snd (export_cifti_mapping ''/cfg/labels.dlabel.nii'' ''/tmp'' ?sh ?parse None ?w))
      = [''/tmp/keep.txt'' \<mapsto> ''kept'',
         ''/tmp/volume.txt'' \<mapsto> ''3 THALAMUS_LEFT 50 60 30\<newline>'']"
    using t [THEN conjunct2, THEN conjunct1] by simp
  have j: "join ''/tmp'' ''volume.txt'' = ''/tmp/volume.txt''"
    using t [THEN conjunct2, THEN conjunct2, THEN conjunct1] by simp
  have r: "fst (export_cifti_mapping ''/cfg/labels.dlabel.nii'' ''/tmp'' ?sh ?parse None ?w)
      = Inl (FileNotFoundError ''/tmp/left.txt'')"
    unfolding export_result Let_def f read_table_def
    by (simp add: join_def)
  show ?thesis
    using r f j by simp
qed

end
